theory Spec2Isabelle
  imports Main "HOL-Library.Word"
begin

section \<open>Shared data\<close>

text \<open>
  A Java \<open>int\<close> and the C++ \<open>int\<close> of the target platforms are 32-bit machine
  integers. A Java \<open>String\<close> reference may be \<open>null\<close>, which is \<open>None\<close> here.
\<close>

type_synonym jint = "32 word"
type_synonym jstring = "string option"

text \<open>
  Java string conversion, as applied to the right operand of \<open>"literal" + message\<close>:
  a \<open>null\<close> reference is converted to the four characters \<open>null\<close>.
\<close>

fun stringValueOf :: "jstring \<Rightarrow> string" where
  "stringValueOf None = ''null''"
| "stringValueOf (Some s) = s"

section \<open>The echo and broadcast test extensions\<close>

text \<open>
  \<open>ExtensionEchoInternal\<close> and \<open>ExtensionBroadcastInternal\<close> extend
  \<open>XWalkExtensionAndroid\<close>. Their handlers act only by calling the inherited
  \<open>postMessage(instanceID, message)\<close> and \<open>broadcastMessage(message)\<close>; a handler
  is modelled by the list of inherited calls it makes, in order.
\<close>

datatype extension_call =
    postMessage jint string
  | broadcastMessage string

definition ExtensionEchoInternal_handleMessage :: "jint \<Rightarrow> jstring \<Rightarrow> extension_call list" where
  "ExtensionEchoInternal_handleMessage instanceID message =
     [postMessage instanceID (''From java:'' @ stringValueOf message)]"

definition ExtensionEchoInternal_handleSyncMessage :: "jint \<Rightarrow> jstring \<Rightarrow> jstring" where
  "ExtensionEchoInternal_handleSyncMessage instanceID message =
     Some (''From java sync:'' @ stringValueOf message)"


definition ExtensionBroadcastInternal_handleSyncMessage :: "jint \<Rightarrow> jstring \<Rightarrow> jstring" where
  "ExtensionBroadcastInternal_handleSyncMessage instanceID message =
     Some (''From java:'' @ stringValueOf message)"



section \<open>XWalkContentsClient: relaying engine events to the embedder\<close>

text \<open>
  \<open>XWalkContentsClient\<close> is abstract; the embedder implements its abstract methods.
  An engine event handler is modelled by the list of abstract methods it calls, with
  their arguments, in order.
\<close>

type_synonym jlong = "64 word"

datatype embedder_callback =
    onPageFinished jstring
  | onReceivedError jint jstring jstring
  | doUpdateVisitedHistory jstring bool
  | onTitleChanged jstring

definition didStopLoading :: "jstring \<Rightarrow> embedder_callback list" where
  "didStopLoading url = [onPageFinished url]"

text \<open>
  \<open>NetError.ERR_ABORTED\<close> and \<open>ErrorCodeConversionHelper.convertErrorCode\<close> are defined
  outside the files at hand; \<open>didFailLoad\<close> takes them as its first two arguments.
\<close>

definition didFailLoad ::
  "jint \<Rightarrow> (jint \<Rightarrow> jint) \<Rightarrow> bool \<Rightarrow> bool \<Rightarrow> jint \<Rightarrow> jstring \<Rightarrow> jstring \<Rightarrow> embedder_callback list" where
  "didFailLoad ERR_ABORTED convertErrorCode isProvisionalLoad isMainFrame errorCode description failingUrl =
     (if errorCode = ERR_ABORTED \<or> \<not> isMainFrame then []
      else [onReceivedError (convertErrorCode errorCode) description failingUrl])"

definition didNavigateAnyFrame :: "jstring \<Rightarrow> jstring \<Rightarrow> bool \<Rightarrow> embedder_callback list" where
  "didNavigateAnyFrame url baseUrl isReload = [doUpdateVisitedHistory url isReload]"

definition didFinishLoad :: "jlong \<Rightarrow> jstring \<Rightarrow> bool \<Rightarrow> embedder_callback list" where
  "didFinishLoad frameId validatedUrl isMainFrame = []"

definition onUpdateTitle :: "jstring \<Rightarrow> embedder_callback list" where
  "onUpdateTitle title = [onTitleChanged title]"

section \<open>XWalkContentBrowserClient\<close>

subsection \<open>Build target and engine types\<close>

text \<open>
  The file is compiled once per target; the preprocessor conditionals on
  \<open>OS_ANDROID\<close>, \<open>OS_MACOSX\<close> and \<open>OS_TIZEN\<close> select the code. \<open>OS_OTHER\<close> stands
  for a target that defines none of the three.
\<close>

datatype target_os = OS_ANDROID | OS_MACOSX | OS_TIZEN | OS_OTHER

text \<open>
  A \<open>GURL\<close> with the three accessors used here. The engine keeps the scheme in
  canonical lower case, so \<open>SchemeIs\<close> with a lower-case argument is an equality test.
\<close>

record GURL =
  spec :: string
  scheme :: string
  host :: string

definition SchemeIs :: "GURL \<Rightarrow> string \<Rightarrow> bool" where
  "SchemeIs url lower_ascii_scheme = (scheme url = lower_ascii_scheme)"

datatype CertificateRequestResultType =
    CERTIFICATE_REQUEST_RESULT_TYPE_CONTINUE
  | CERTIFICATE_REQUEST_RESULT_TYPE_CANCEL
  | CERTIFICATE_REQUEST_RESULT_TYPE_DENY

datatype Permission = PermissionAllowed | PermissionNotAllowed | PermissionDenied

subsection \<open>The singleton\<close>

text \<open>
  The process state relevant to the singleton: the file-level pointer
  \<open>g_browser_client\<close> and the \<open>XWalkContentBrowserClient\<close> objects that are alive,
  by address, with the fields the constructor initialises.
\<close>

type_synonym addr = nat

record client_object =
  xwalk_runner_ :: addr
  url_request_context_getter_ :: "addr option"
  main_parts_ :: "addr option"

record process_state =
  g_browser_client :: "addr option"
  objects :: "addr \<rightharpoonup> client_object"

definition initial_state :: process_state where
  "initial_state = \<lparr>g_browser_client = None, objects = Map.empty\<rparr>"

definition Get :: "process_state \<Rightarrow> addr option" where
  "Get s = g_browser_client s"

text \<open>
  \<open>DCHECK(c)\<close> aborts the process when \<open>c\<close> is false in a build with DCHECKs on and
  is compiled out otherwise. \<open>Lifetime_violation\<close> is not an outcome of the code: it
  marks a step no C++ program takes (constructing an object where one is alive,
  destroying an object that is not alive).
\<close>

datatype failure = DCHECK_failure | Lifetime_violation

definition DCHECK :: "bool \<Rightarrow> bool \<Rightarrow> bool" where
  "DCHECK dcheck_is_on condition = (if dcheck_is_on then condition else True)"

definition constructor :: "bool \<Rightarrow> addr \<Rightarrow> addr \<Rightarrow> process_state \<Rightarrow> failure + process_state" where
  "constructor dcheck_is_on this xwalk_runner s =
     (if this \<in> dom (objects s) then Inl Lifetime_violation
      else if \<not> DCHECK dcheck_is_on (g_browser_client s = None) then Inl DCHECK_failure
      else Inr (s\<lparr>objects := (objects s)(this \<mapsto>
                     \<lparr>xwalk_runner_ = xwalk_runner,
                      url_request_context_getter_ = None,
                      main_parts_ = None\<rparr>),
                  g_browser_client := Some this\<rparr>))"

definition destructor :: "bool \<Rightarrow> addr \<Rightarrow> process_state \<Rightarrow> failure + process_state" where
  "destructor dcheck_is_on this s =
     (if this \<notin> dom (objects s) then Inl Lifetime_violation
      else if \<not> DCHECK dcheck_is_on (g_browser_client s \<noteq> None) then Inl DCHECK_failure
      else Inr (s\<lparr>g_browser_client := None, objects := (objects s)(this := None)\<rparr>))"

datatype lifecycle = Construct addr addr | Destroy addr

fun step :: "bool \<Rightarrow> lifecycle \<Rightarrow> process_state \<Rightarrow> failure + process_state" where
  "step dcheck_is_on (Construct this xwalk_runner) s = constructor dcheck_is_on this xwalk_runner s"
| "step dcheck_is_on (Destroy this) s = destructor dcheck_is_on this s"

fun run :: "bool \<Rightarrow> lifecycle list \<Rightarrow> process_state \<Rightarrow> failure + process_state" where
  "run dcheck_is_on [] s = Inr s"
| "run dcheck_is_on (x # xs) s =
     (case step dcheck_is_on x s of Inl e \<Rightarrow> Inl e | Inr s' \<Rightarrow> run dcheck_is_on xs s')"

text \<open>The instances that exist are exactly the one \<open>Get\<close> returns, if any.\<close>

definition singleton_inv :: "process_state \<Rightarrow> bool" where
  "singleton_inv s = (dom (objects s) = set_option (Get s))"

subsection \<open>Cookie policy\<close>

text \<open>
  On Android both functions delegate to \<open>XWalkCookieAccessPolicy::GetInstance()\<close>,
  whose two methods are the argument \<open>policy\<close>.
\<close>

definition AllowGetCookie ::
  "target_os \<Rightarrow> (GURL \<Rightarrow> GURL \<Rightarrow> 'cookies \<Rightarrow> 'ctx \<Rightarrow> jint \<Rightarrow> jint \<Rightarrow> bool)
   \<Rightarrow> GURL \<Rightarrow> GURL \<Rightarrow> 'cookies \<Rightarrow> 'ctx \<Rightarrow> jint \<Rightarrow> jint \<Rightarrow> bool" where
  "AllowGetCookie os policy url first_party cookie_list context render_process_id render_frame_id =
     (if os = OS_ANDROID
      then policy url first_party cookie_list context render_process_id render_frame_id
      else True)"

definition AllowSetCookie ::
  "target_os \<Rightarrow> (GURL \<Rightarrow> GURL \<Rightarrow> string \<Rightarrow> 'ctx \<Rightarrow> jint \<Rightarrow> jint \<Rightarrow> 'opts \<Rightarrow> bool)
   \<Rightarrow> GURL \<Rightarrow> GURL \<Rightarrow> string \<Rightarrow> 'ctx \<Rightarrow> jint \<Rightarrow> jint \<Rightarrow> 'opts \<Rightarrow> bool" where
  "AllowSetCookie os policy url first_party cookie_line context render_process_id render_frame_id options =
     (if os = OS_ANDROID
      then policy url first_party cookie_line context render_process_id render_frame_id options
      else True)"

subsection \<open>SSL errors\<close>

text \<open>
  \<open>XWalkContentsClientBridgeBase::FromRenderFrameID\<close> is the lookup
  \<open>FromRenderFrameID\<close>; \<open>None\<close> is the null pointer. A bridge is what its
  \<open>AllowCertificateError\<close> leaves in \<open>cancel_request\<close>, given the certificate error, the
  certificate, the URL, the callback and the value of \<open>cancel_request\<close> on entry.
  The function returns the value of \<open>*result\<close> on exit; its last argument is the value
  on entry. The resource type and the two enforcement flags are not read.
\<close>

type_synonym ('cert, 'cb) bridge = "jint \<Rightarrow> 'cert \<Rightarrow> GURL \<Rightarrow> 'cb \<Rightarrow> bool \<Rightarrow> bool"

definition AllowCertificateError ::
  "target_os \<Rightarrow> (jint \<Rightarrow> jint \<Rightarrow> ('cert, 'cb) bridge option)
   \<Rightarrow> jint \<Rightarrow> jint \<Rightarrow> jint \<Rightarrow> 'cert \<Rightarrow> GURL \<Rightarrow> 'cb
   \<Rightarrow> CertificateRequestResultType \<Rightarrow> CertificateRequestResultType" where
  "AllowCertificateError os FromRenderFrameID render_process_id render_frame_id
       cert_error cert request_url callback result =
     (if os = OS_ANDROID then
        (let client = FromRenderFrameID render_process_id render_frame_id;
             cancel_request = True;
             cancel_request =
               (case client of
                  None \<Rightarrow> cancel_request
                | Some c \<Rightarrow> c cert_error cert request_url callback cancel_request)
         in if cancel_request then CERTIFICATE_REQUEST_RESULT_TYPE_DENY else result)
      else result)"

subsection \<open>Desktop notifications\<close>

definition CheckDesktopNotificationPermission :: "target_os \<Rightarrow> GURL \<Rightarrow> 'ctx \<Rightarrow> jint \<Rightarrow> Permission" where
  "CheckDesktopNotificationPermission os source_url context render_process_id =
     (if os = OS_ANDROID then PermissionAllowed else PermissionNotAllowed)"

subsection \<open>Window creation\<close>

text \<open>
  \<open>CanCreateWindow\<close> is compiled only when \<open>OS_ANDROID\<close> is not defined: on Android
  the class does not override it and the model gives \<open>None\<close>. Elsewhere it gives the
  returned boolean and what the body does, in order: the store to
  \<open>*no_javascript_access\<close>, the log line, and on Tizen the hand-over of the URL to
  the platform. The application lookup through \<open>xwalk_runner_\<close> and
  \<open>Application::CanRequestURL\<close> are arguments; of the URL arguments only
  \<open>target_url\<close> is read, of the others only \<open>render_process_id\<close>.
\<close>

datatype window_effect =
    store_no_javascript_access bool
  | LOG_INFO string
  | OpenExternal GURL

definition CanCreateWindow ::
  "target_os \<Rightarrow> (jint \<Rightarrow> 'app option) \<Rightarrow> ('app \<Rightarrow> GURL \<Rightarrow> bool) \<Rightarrow> GURL \<Rightarrow> jint
   \<Rightarrow> (bool \<times> window_effect list) option" where
  "CanCreateWindow os GetApplicationByRenderHostID CanRequestURL target_url render_process_id =
     (if os = OS_ANDROID then None
      else
        (case GetApplicationByRenderHostID render_process_id of
           None \<Rightarrow> Some (True, [store_no_javascript_access False])
         | Some app \<Rightarrow>
             if CanRequestURL app target_url
             then Some (True, [store_no_javascript_access False,
                               LOG_INFO (''[ALLOW] CreateWindow: '' @ spec target_url)])
             else Some (False, [store_no_javascript_access False,
                                LOG_INFO (''[BlOCK] CreateWindow: '' @ spec target_url)]
                               @ (if os = OS_TIZEN then [OpenExternal target_url] else []))))"

subsection \<open>Storage partitions\<close>

text \<open>
  The three output parameters, as distinct objects. The function takes their values
  on entry and returns their values on exit. \<open>application::kApplicationScheme\<close> is
  defined outside the files at hand and is an argument; the browser context and
  \<open>can_be_default\<close> are not read.
\<close>

record partition_config =
  partition_domain :: string
  partition_name :: string
  in_memory :: bool

definition GetStoragePartitionConfigForSite ::
  "target_os \<Rightarrow> string \<Rightarrow> GURL \<Rightarrow> partition_config \<Rightarrow> partition_config" where
  "GetStoragePartitionConfigForSite os kApplicationScheme site out =
     (let out = out\<lparr>in_memory := False\<rparr>;
          out = out\<lparr>partition_domain := []\<rparr>;
          out = out\<lparr>partition_name := []\<rparr>
      in if os \<noteq> OS_ANDROID \<and> SchemeIs site kApplicationScheme
         then out\<lparr>partition_domain := host site\<rparr>
         else out)"

section \<open>Properties of XWalkContentsClient\<close>

text \<open>
  The statement that every \<open>didFailLoad\<close> event reaches \<open>onReceivedError\<close> fails:
  a failure in a sub-frame, and a failure with the code \<open>ERR_ABORTED\<close> in the main
  frame, call nothing.
\<close>

theorem client_event_forwarding_counterexample:
  "didFailLoad (- 3) id False False (- 2) (Some ''net::ERR_FAILED'') (Some ''http://example.com/frame.html'') = []
   \<and> didFailLoad (- 3) id False True (- 3) (Some ''net::ERR_ABORTED'') (Some ''http://example.com/'') = []"
  by (simp add: didFailLoad_def)

text \<open>
  C1, as amended. \<open>onUpdateTitle\<close>, \<open>didStopLoading\<close> and \<open>didNavigateAnyFrame\<close>
  each make exactly one call to an abstract method of the embedder
  (\<open>onTitleChanged\<close>, \<open>onPageFinished\<close>, \<open>doUpdateVisitedHistory\<close>). \<open>didFailLoad\<close>
  calls \<open>onReceivedError\<close>, once, with the converted error code, the description and
  the failing URL, exactly when the failure is in the main frame and the error code
  is not \<open>ERR_ABORTED\<close>; otherwise it calls nothing.
\<close>

theorem client_event_forwarding:
  "onUpdateTitle title = [onTitleChanged title]
   \<and> didStopLoading url = [onPageFinished url]
   \<and> didNavigateAnyFrame url baseUrl isReload = [doUpdateVisitedHistory url isReload]
   \<and> didFailLoad ERR_ABORTED convertErrorCode isProvisionalLoad isMainFrame errorCode description failingUrl =
       (if isMainFrame \<and> errorCode \<noteq> ERR_ABORTED
        then [onReceivedError (convertErrorCode errorCode) description failingUrl]
        else [])"
  by (simp add: onUpdateTitle_def didStopLoading_def didNavigateAnyFrame_def didFailLoad_def)

theorem client_event_forwarding_witness:
  "onUpdateTitle (Some ''T'') = [onTitleChanged (Some ''T'')]
   \<and> didStopLoading (Some ''u'') = [onPageFinished (Some ''u'')]
   \<and> didNavigateAnyFrame (Some ''u'') (Some ''b'') True = [doUpdateVisitedHistory (Some ''u'') True]
   \<and> didFailLoad (- 3) uminus False True (- 2) (Some ''d'') (Some ''u'') = [onReceivedError 2 (Some ''d'') (Some ''u'')]"
  using client_event_forwarding [of "Some ''T''" "Some ''u''" "Some ''b''" True "- 3" uminus False True "- 2" "Some ''d''" "Some ''u''"]
  by simp

section \<open>Properties of XWalkContentBrowserClient\<close>

text \<open>
  C2. On Android, when no \<open>XWalkContentsClientBridgeBase\<close> is registered for the
  render process id and render frame id, \<open>AllowCertificateError\<close> leaves
  \<open>CERTIFICATE_REQUEST_RESULT_TYPE_DENY\<close> in \<open>*result\<close>, whatever it held on entry.
\<close>

theorem AllowCertificateError_denies_without_bridge:
  "os = OS_ANDROID \<Longrightarrow> FromRenderFrameID render_process_id render_frame_id = None \<Longrightarrow>
   AllowCertificateError os FromRenderFrameID render_process_id render_frame_id
       cert_error cert request_url callback result = CERTIFICATE_REQUEST_RESULT_TYPE_DENY"
  by (simp add: AllowCertificateError_def)

theorem AllowCertificateError_denies_without_bridge_witness:
  "AllowCertificateError OS_ANDROID (\<lambda>p f. (None :: (unit, unit) bridge option)) 1 2 (- 202) () 
     \<lparr>spec = ''https://a.test/'', scheme = ''https'', host = ''a.test''\<rparr> ()
     CERTIFICATE_REQUEST_RESULT_TYPE_CONTINUE = CERTIFICATE_REQUEST_RESULT_TYPE_DENY"
  by (rule AllowCertificateError_denies_without_bridge) simp_all

text \<open>
  C3. Off Android, \<open>CanCreateWindow\<close> returns true when the render process id belongs
  to no application, and otherwise returns whether that application can request the
  target URL. In every case the first thing it does is store false in
  \<open>*no_javascript_access\<close>, and it does not store to it again.
\<close>

theorem CanCreateWindow_policy:
  "os \<noteq> OS_ANDROID \<Longrightarrow>
   \<exists>rest. CanCreateWindow os GetApplicationByRenderHostID CanRequestURL target_url render_process_id =
       Some ((case GetApplicationByRenderHostID render_process_id of
                None \<Rightarrow> True
              | Some app \<Rightarrow> CanRequestURL app target_url),
             store_no_javascript_access False # rest)
     \<and> (\<forall>b. store_no_javascript_access b \<notin> set rest)"
  by (auto simp add: CanCreateWindow_def split: option.splits)

theorem CanCreateWindow_policy_witness:
  "\<exists>rest. CanCreateWindow OS_TIZEN (\<lambda>p. if p = 5 then Some (0::nat) else None) (\<lambda>app u. host u = ''ok.test'')
       \<lparr>spec = ''http://bad.test/'', scheme = ''http'', host = ''bad.test''\<rparr> 5 =
       Some (False, store_no_javascript_access False # rest)
     \<and> (\<forall>b. store_no_javascript_access b \<notin> set rest)"
  using CanCreateWindow_policy [of OS_TIZEN "\<lambda>p. if p = 5 then Some (0::nat) else None" "\<lambda>app u. host u = ''ok.test''"
       "\<lparr>spec = ''http://bad.test/'', scheme = ''http'', host = ''bad.test''\<rparr>" 5]
  by simp

text \<open>
  C4. Off Android, \<open>AllowGetCookie\<close> and \<open>AllowSetCookie\<close> return true for all
  arguments.
\<close>

theorem cookies_allowed_off_android:
  "os \<noteq> OS_ANDROID \<Longrightarrow>
   AllowGetCookie os get_policy url first_party cookie_list context render_process_id render_frame_id
   \<and> AllowSetCookie os set_policy url first_party cookie_line context render_process_id render_frame_id options"
  by (simp add: AllowGetCookie_def AllowSetCookie_def)

theorem cookies_allowed_off_android_witness:
  "AllowGetCookie OS_OTHER (\<lambda>u f (c::unit) (x::unit) p r. False) 
      \<lparr>spec = ''http://a.test/'', scheme = ''http'', host = ''a.test''\<rparr>
      \<lparr>spec = ''http://b.test/'', scheme = ''http'', host = ''b.test''\<rparr> () () 1 2
   \<and> AllowSetCookie OS_OTHER (\<lambda>u f l (x::unit) p r (opts::unit). False)
      \<lparr>spec = ''http://a.test/'', scheme = ''http'', host = ''a.test''\<rparr>
      \<lparr>spec = ''http://b.test/'', scheme = ''http'', host = ''b.test''\<rparr> ''k=v'' () 1 2 ()"
  by (rule cookies_allowed_off_android) simp

text \<open>
  C5. \<open>CheckDesktopNotificationPermission\<close> returns \<open>PermissionAllowed\<close> on Android
  and \<open>PermissionNotAllowed\<close> on every other target, for all arguments.
\<close>

theorem CheckDesktopNotificationPermission_by_platform:
  "CheckDesktopNotificationPermission OS_ANDROID source_url context render_process_id = PermissionAllowed
   \<and> (os \<noteq> OS_ANDROID \<longrightarrow>
        CheckDesktopNotificationPermission os source_url context render_process_id = PermissionNotAllowed)"
  by (simp add: CheckDesktopNotificationPermission_def)

theorem CheckDesktopNotificationPermission_by_platform_witness:
  "CheckDesktopNotificationPermission OS_ANDROID \<lparr>spec = ''http://a.test/'', scheme = ''http'', host = ''a.test''\<rparr> () 1 = PermissionAllowed
   \<and> CheckDesktopNotificationPermission OS_MACOSX \<lparr>spec = ''http://a.test/'', scheme = ''http'', host = ''a.test''\<rparr> () 1 = PermissionNotAllowed"
  using CheckDesktopNotificationPermission_by_platform [of "\<lparr>spec = ''http://a.test/'', scheme = ''http'', host = ''a.test''\<rparr>" "()" 1 OS_MACOSX]
  by simp

text \<open>
  C6. After \<open>GetStoragePartitionConfigForSite\<close>, \<open>*in_memory\<close> is false and
  \<open>*partition_name\<close> is empty; \<open>*partition_domain\<close> is empty on Android, and
  elsewhere it is the host of the site if the site's scheme is the application scheme
  and empty otherwise. None of this depends on the values on entry.
\<close>

theorem GetStoragePartitionConfigForSite_outputs:
  "in_memory (GetStoragePartitionConfigForSite os kApplicationScheme site out) = False
   \<and> partition_name (GetStoragePartitionConfigForSite os kApplicationScheme site out) = []
   \<and> partition_domain (GetStoragePartitionConfigForSite os kApplicationScheme site out) =
       (if os = OS_ANDROID then []
        else if SchemeIs site kApplicationScheme then host site else [])"
  by (simp add: GetStoragePartitionConfigForSite_def Let_def)

theorem GetStoragePartitionConfigForSite_outputs_witness:
  "GetStoragePartitionConfigForSite OS_OTHER ''app'' \<lparr>spec = ''app://abc/index.html'', scheme = ''app'', host = ''abc''\<rparr>
      \<lparr>partition_domain = ''old'', partition_name = ''old'', in_memory = True\<rparr>
    = \<lparr>partition_domain = ''abc'', partition_name = [], in_memory = False\<rparr>"
  using GetStoragePartitionConfigForSite_outputs [of OS_OTHER "''app''" "\<lparr>spec = ''app://abc/index.html'', scheme = ''app'', host = ''abc''\<rparr>"
      "\<lparr>partition_domain = ''old'', partition_name = ''old'', in_memory = True\<rparr>"]
  by (simp add: GetStoragePartitionConfigForSite_def SchemeIs_def)

section \<open>Properties of the extensions\<close>

text \<open>
  C7. For every instance id and every message string \<open>m\<close>, the echo extension's
  \<open>handleSyncMessage\<close> returns exactly \<open>"From java sync:"\<close> followed by \<open>m\<close>, and
  the returned value does not depend on the instance id.
\<close>

theorem echo_handleSyncMessage_reply:
  "ExtensionEchoInternal_handleSyncMessage i (Some m) = Some (''From java sync:'' @ m)
   \<and> ExtensionEchoInternal_handleSyncMessage i message = ExtensionEchoInternal_handleSyncMessage j message"
  by (simp add: ExtensionEchoInternal_handleSyncMessage_def)

theorem echo_handleSyncMessage_reply_witness:
  "ExtensionEchoInternal_handleSyncMessage 7 (Some ''ping'') = Some ''From java sync:ping''
   \<and> ExtensionEchoInternal_handleSyncMessage 7 None = ExtensionEchoInternal_handleSyncMessage 8 None"
  using echo_handleSyncMessage_reply [of 7 "''ping''" None 8]
  by (simp add: ExtensionEchoInternal_handleSyncMessage_def)

text \<open>
  C8. For every instance id \<open>i\<close> and every message string \<open>m\<close>, the echo extension's
  \<open>handleMessage\<close> posts exactly one message back, addressed to the same instance
  id \<open>i\<close>, with content \<open>"From java:"\<close> followed by \<open>m\<close>.
\<close>

theorem echo_handleMessage_posts_once:
  "ExtensionEchoInternal_handleMessage i (Some m) = [postMessage i (''From java:'' @ m)]"
  by (simp add: ExtensionEchoInternal_handleMessage_def)

theorem echo_handleMessage_posts_once_witness:
  "ExtensionEchoInternal_handleMessage 3 (Some ''hello'') = [postMessage 3 ''From java:hello'']"
  using echo_handleMessage_posts_once [of 3 "''hello''"] by simp



section \<open>The singleton invariant\<close>

lemma singleton_inv_initial: "singleton_inv initial_state"
  by (simp add: singleton_inv_def initial_state_def Get_def)

lemma singleton_inv_card: "singleton_inv s \<Longrightarrow> card (dom (objects s)) \<le> 1"
  by (cases "Get s") (simp_all add: singleton_inv_def)

lemma constructor_checked:
  assumes "singleton_inv s" and "constructor True this r s = Inr s'"
  shows "Get s = None \<and> dom (objects s) = {} \<and> Get s' = Some this \<and> dom (objects s') = {this} \<and> singleton_inv s'"
  using assms
  by (auto simp add: constructor_def DCHECK_def singleton_inv_def Get_def split: if_splits)

lemma destructor_checked:
  assumes "singleton_inv s" and "destructor True this s = Inr s'"
  shows "Get s = Some this \<and> dom (objects s) = {this} \<and> Get s' = None \<and> dom (objects s') = {} \<and> singleton_inv s'"
proof -
  from assms(2) have alive: "this \<in> dom (objects s)"
    and s': "s' = s\<lparr>g_browser_client := None, objects := (objects s)(this := None)\<rparr>"
    by (simp_all add: destructor_def DCHECK_def split: if_splits)
  from assms(1) alive have g: "Get s = Some this" and d: "dom (objects s) = {this}"
    by (cases "Get s"; simp add: singleton_inv_def)+
  from s' d have "Get s' = None" and "dom (objects s') = {}"
    by (simp_all add: Get_def)
  with g d show ?thesis by (simp add: singleton_inv_def)
qed

lemma step_checked_inv:
  "singleton_inv s \<Longrightarrow> step True x s = Inr s' \<Longrightarrow> singleton_inv s'"
  by (cases x) (auto dest: constructor_checked destructor_checked)

lemma step_any_build:
  "step True x s = Inr s' \<Longrightarrow> step d x s = Inr s'"
  by (cases x) (auto simp add: constructor_def destructor_def DCHECK_def split: if_splits)

lemma run_checked:
  "singleton_inv s \<Longrightarrow> run True ops s = Inr s' \<Longrightarrow> singleton_inv s' \<and> run d ops s = Inr s'"
proof (induction ops arbitrary: s)
  case Nil
  then show ?case by simp
next
  case (Cons x xs)
  from Cons.prems(2) obtain t where t: "step True x s = Inr t" and r: "run True xs t = Inr s'"
    by (auto split: sum.splits)
  from Cons.prems(1) t have "singleton_inv t" by (rule step_checked_inv)
  with r have "singleton_inv s' \<and> run d xs t = Inr s'" using Cons.IH by blast
  moreover from t have "step d x s = Inr t" by (rule step_any_build)
  ultimately show ?case by simp
qed

text \<open>
  C10. Take any sequence of constructions and destructions that passes every
  \<open>DCHECK\<close>, from the start of the process. Then the instances alive are exactly the
  one \<open>Get()\<close> returns, or none when it returns \<open>NULL\<close>, so at most one exists; a build
  without DCHECKs reaches the same state; from there a construction passes only if no
  instance exists and makes \<open>Get()\<close> return the new instance, and a destruction
  passes only if the instance exists and makes \<open>Get()\<close> return \<open>NULL\<close>.
\<close>

theorem singleton_invariant:
  assumes "run True ops initial_state = Inr s"
  shows "dom (objects s) = set_option (Get s)
     \<and> card (dom (objects s)) \<le> 1
     \<and> run dcheck_is_on ops initial_state = Inr s
     \<and> (\<forall>this r s'. constructor True this r s = Inr s' \<longrightarrow>
           dom (objects s) = {} \<and> Get s' = Some this \<and> dom (objects s') = {this})
     \<and> (\<forall>this s'. destructor True this s = Inr s' \<longrightarrow>
           dom (objects s) = {this} \<and> Get s' = None \<and> dom (objects s') = {})"
proof -
  from singleton_inv_initial assms
  have inv: "singleton_inv s" and any: "run dcheck_is_on ops initial_state = Inr s"
    using run_checked by blast+
  from inv have "dom (objects s) = set_option (Get s)" by (simp add: singleton_inv_def)
  moreover from inv have "card (dom (objects s)) \<le> 1" by (rule singleton_inv_card)
  moreover from inv have "\<forall>this r s'. constructor True this r s = Inr s' \<longrightarrow>
           dom (objects s) = {} \<and> Get s' = Some this \<and> dom (objects s') = {this}"
    using constructor_checked by blast
  moreover from inv have "\<forall>this s'. destructor True this s = Inr s' \<longrightarrow>
           dom (objects s) = {this} \<and> Get s' = None \<and> dom (objects s') = {}"
    using destructor_checked by blast
  ultimately show ?thesis using any by blast
qed

theorem singleton_invariant_witness:
  "run True [Construct 1 9, Destroy 1, Construct 2 9] initial_state =
     Inr \<lparr>g_browser_client = Some 2,
          objects = [2 \<mapsto> \<lparr>xwalk_runner_ = 9, url_request_context_getter_ = None, main_parts_ = None\<rparr>]\<rparr>
   \<and> run False [Construct 1 9, Destroy 1, Construct 2 9] initial_state =
     Inr \<lparr>g_browser_client = Some 2,
          objects = [2 \<mapsto> \<lparr>xwalk_runner_ = 9, url_request_context_getter_ = None, main_parts_ = None\<rparr>]\<rparr>"
proof -
  have r: "run True [Construct 1 9, Destroy 1, Construct 2 9] initial_state =
     Inr \<lparr>g_browser_client = Some 2,
          objects = [2 \<mapsto> \<lparr>xwalk_runner_ = 9, url_request_context_getter_ = None, main_parts_ = None\<rparr>]\<rparr>"
    by (simp add: constructor_def destructor_def DCHECK_def initial_state_def)
  from singleton_invariant [OF r, of False] r show ?thesis by blast
qed

text \<open>
  The DCHECKs carry the requirement: a second construction aborts a build with
  DCHECKs on, and in a build without them it leaves two instances alive.
\<close>

lemma checked_build: "run True [Construct 1 9, Construct 2 9] initial_state = Inl DCHECK_failure"
  by (simp add: constructor_def destructor_def DCHECK_def initial_state_def Get_def)

lemma unchecked_build: "map_sum id (\<lambda>s. (Get s, dom (objects s))) (run False [Construct 1 9, Construct 2 9] initial_state) = Inr (Some 2, {1, 2})"
  by (simp add: constructor_def destructor_def DCHECK_def initial_state_def Get_def insert_commute)

end
